theory Spec2Isabelle
  imports Complex_Main "HOL-Library.Word"
begin

section \<open>JavaScript strings\<close>

text \<open>
  A JavaScript string is a finite sequence of 16-bit code units; \<open>length\<close> counts code
  units. String literals of the scripts are ASCII and are written through \<open>js\<close>.
\<close>

type_synonym jsstring = "16 word list"

definition js :: "string \<Rightarrow> jsstring" where
  "js s = map of_char s"

text \<open>
  \<open>String.prototype.trim\<close> removes white space and line terminators from both ends:
  TAB, LF, VT, FF, CR, SPACE, NBSP, U+1680, U+2000 to U+200A, U+2028, U+2029, U+202F,
  U+205F, U+3000 and U+FEFF.
\<close>

definition is_whitespace :: "16 word \<Rightarrow> bool" where
  "is_whitespace c \<longleftrightarrow>
     (0x09 \<le> c \<and> c \<le> 0x0D) \<or> c = 0x20 \<or> c = 0xA0 \<or> c = 0x1680 \<or>
     (0x2000 \<le> c \<and> c \<le> 0x200A) \<or> c = 0x2028 \<or> c = 0x2029 \<or> c = 0x202F \<or>
     c = 0x205F \<or> c = 0x3000 \<or> c = 0xFEFF"


definition trim :: "jsstring \<Rightarrow> jsstring" where
  "trim s = rev (dropWhile is_whitespace (rev (dropWhile is_whitespace s)))"

section \<open>JavaScript values, numbers and errors\<close>

text \<open>
  The values a parsed JSON body can hold, and \<open>undefined\<close> for a property that is not
  there. Numbers are the integers, exact in JavaScript up to \<open>2 ^ 53\<close> in absolute
  value; fractions are outside the model. An object is the list of its own properties
  (of a name listed twice, the first entry counts).
\<close>

datatype jsval =
    JUndefined
  | JNull
  | JBool bool
  | JNum int
  | JStr jsstring
  | JArr "jsval list"
  | JObj "(jsstring \<times> jsval) list"

datatype js_error = TypeError | SyntaxError | URIError | NetworkError

text \<open>A line written by \<open>console.error(label, err)\<close>, or the report of an exception nothing caught.\<close>

datatype log_entry = ConsoleError jsstring js_error | Uncaught js_error

text \<open>
  What a \<open>fetch\<close> can come back with: a rejection (the transport failed), or a response
  with its HTTP status and a body that \<open>response.json()\<close> either parses to a value or
  rejects with a \<open>SyntaxError\<close> (\<open>None\<close>).
\<close>

datatype response = NetworkFailure | Response nat "jsval option"

text \<open>
  Reading a property, for the names the scripts read (\<open>status\<close>, \<open>length\<close>, \<open>url\<close>,
  \<open>type\<close>, \<open>name\<close>): \<open>null\<close> and \<open>undefined\<close> throw a \<open>TypeError\<close>, an object gives its
  own property or \<open>undefined\<close>, strings and arrays have a \<open>length\<close>.
\<close>

fun get_prop :: "jsval \<Rightarrow> jsstring \<Rightarrow> js_error + jsval" where
  "get_prop JUndefined k = Inl TypeError"
| "get_prop JNull k = Inl TypeError"
| "get_prop (JObj ps) k = Inr (case map_of ps k of None \<Rightarrow> JUndefined | Some v \<Rightarrow> v)"
| "get_prop (JStr s) k = Inr (if k = js ''length'' then JNum (int (length s)) else JUndefined)"
| "get_prop (JArr xs) k = Inr (if k = js ''length'' then JNum (int (length xs)) else JUndefined)"
| "get_prop v k = Inr JUndefined"

subsection \<open>Numbers and their decimal form\<close>




definition digit_char :: "nat \<Rightarrow> 16 word" where
  "digit_char d = 0x30 + of_nat d"

fun nat_to_string :: "nat \<Rightarrow> jsstring" where
  "nat_to_string n =
     (if n < 10 then [digit_char n] else nat_to_string (n div 10) @ [digit_char (n mod 10)])"

declare nat_to_string.simps [simp del]

definition int_to_string :: "int \<Rightarrow> jsstring" where
  "int_to_string n = (if n < 0 then 0x2D # nat_to_string (nat (- n)) else nat_to_string (nat n))"


subsection \<open>\<open>parseInt(string)\<close> with no radix\<close>




subsection \<open>Conversion to a string in a template literal\<close>

text \<open>
  \<open>`${v}`\<close>: \<open>undefined\<close> and \<open>null\<close> give their names, an array joins its elements with
  commas (with \<open>null\<close> and \<open>undefined\<close> elements empty). An object gives
  \<open>[object Object]\<close> unless it has a \<open>toString\<close> property of its own, which (coming
  from JSON) is not callable, and then the conversion throws a \<open>TypeError\<close>.
\<close>

fun join :: "jsstring \<Rightarrow> jsstring list \<Rightarrow> jsstring" where
  "join sep [] = []"
| "join sep [x] = x"
| "join sep (x # xs) = x @ sep @ join sep xs"

fun sequence :: "(js_error + 'a) list \<Rightarrow> js_error + 'a list" where
  "sequence [] = Inr []"
| "sequence (Inl e # rs) = Inl e"
| "sequence (Inr x # rs) = (case sequence rs of Inl e \<Rightarrow> Inl e | Inr xs \<Rightarrow> Inr (x # xs))"

fun template_string :: "jsval \<Rightarrow> js_error + jsstring" where
  "template_string JUndefined = Inr (js ''undefined'')"
| "template_string JNull = Inr (js ''null'')"
| "template_string (JBool b) = Inr (if b then js ''true'' else js ''false'')"
| "template_string (JNum n) = Inr (int_to_string n)"
| "template_string (JStr s) = Inr s"
| "template_string (JArr xs) =
     (case sequence
         (map (\<lambda>x. if x = JNull \<or> x = JUndefined then Inr (js '''') else template_string x) xs) of
        Inl e \<Rightarrow> Inl e
      | Inr ss \<Rightarrow> Inr (join (js '','') ss))"
| "template_string (JObj ps) =
     (if js ''toString'' \<in> fst ` set ps then Inl TypeError else Inr (js ''[object Object]''))"

subsection \<open>\<open>classList\<close>\<close>



section \<open>Star buttons (\<open>initStarButtons\<close>)\<close>






section \<open>Search suggestions (\<open>initSearchSuggestions\<close>)\<close>

subsection \<open>\<open>encodeURIComponent\<close>\<close>

text \<open>
  Letters, digits and \<open>- _ . ! ~ * ' ( )\<close> stand for themselves; any other code point is
  written as the \<open>%XX\<close> escapes of its UTF-8 bytes. A surrogate code unit that is not
  part of a pair throws a \<open>URIError\<close>.
\<close>

definition is_unreserved :: "16 word \<Rightarrow> bool" where
  "is_unreserved c \<longleftrightarrow>
     (0x41 \<le> c \<and> c \<le> 0x5A) \<or> (0x61 \<le> c \<and> c \<le> 0x7A) \<or> (0x30 \<le> c \<and> c \<le> 0x39) \<or>
     c \<in> {0x2D, 0x5F, 0x2E, 0x21, 0x7E, 0x2A, 0x27, 0x28, 0x29}"

definition utf8 :: "nat \<Rightarrow> nat list" where
  "utf8 cp =
     (if cp < 0x80 then [cp]
      else if cp < 0x800 then [0xC0 + cp div 0x40, 0x80 + cp mod 0x40]
      else if cp < 0x10000 then
        [0xE0 + cp div 0x1000, 0x80 + cp div 0x40 mod 0x40, 0x80 + cp mod 0x40]
      else
        [0xF0 + cp div 0x40000, 0x80 + cp div 0x1000 mod 0x40,
         0x80 + cp div 0x40 mod 0x40, 0x80 + cp mod 0x40])"

definition hex_digit :: "nat \<Rightarrow> 16 word" where
  "hex_digit d = (if d < 10 then 0x30 + of_nat d else 0x41 + of_nat (d - 10))"

definition percent_escape :: "nat \<Rightarrow> jsstring" where
  "percent_escape b = [0x25, hex_digit (b div 16), hex_digit (b mod 16)]"

definition is_high_surrogate :: "16 word \<Rightarrow> bool" where
  "is_high_surrogate c \<longleftrightarrow> 0xD800 \<le> c \<and> c \<le> 0xDBFF"

definition is_low_surrogate :: "16 word \<Rightarrow> bool" where
  "is_low_surrogate c \<longleftrightarrow> 0xDC00 \<le> c \<and> c \<le> 0xDFFF"

fun prepend :: "jsstring \<Rightarrow> js_error + jsstring \<Rightarrow> js_error + jsstring" where
  "prepend s (Inl e) = Inl e"
| "prepend s (Inr t) = Inr (s @ t)"

fun encodeURIComponent :: "jsstring \<Rightarrow> js_error + jsstring" where
  "encodeURIComponent [] = Inr []"
| "encodeURIComponent (c # cs) =
     (if is_unreserved c then prepend [c] (encodeURIComponent cs)
      else if is_low_surrogate c then Inl URIError
      else if is_high_surrogate c then
        (case cs of
           [] \<Rightarrow> Inl URIError
         | d # ds \<Rightarrow>
             if is_low_surrogate d then
               prepend
                 (concat (map percent_escape
                    (utf8 (0x10000 + (unat c - 0xD800) * 0x400 + (unat d - 0xDC00)))))
                 (encodeURIComponent ds)
             else Inl URIError)
      else prepend (concat (map percent_escape (utf8 (unat c)))) (encodeURIComponent cs))"

subsection \<open>The suggestion panel and its markup\<close>

text \<open>
  \<open>suggestionsContainer\<close>: the markup last assigned to \<open>innerHTML\<close> and the value of
  \<open>style.display\<close> (the empty string until the script sets it).
\<close>

record panel =
  innerHTML :: jsstring
  display :: jsstring

text \<open>A line break of the template literal followed by its indentation.\<close>

definition nl :: "nat \<Rightarrow> jsstring" where
  "nl n = 0x0A # replicate n 0x20"

text \<open>
  The template literal of one item. Reading \<open>item.url\<close> throws when the item is \<open>null\<close>.
\<close>

definition suggestion_item :: "jsval \<Rightarrow> js_error + jsstring" where
  "suggestion_item item =
     (case get_prop item (js ''url'') of
        Inl e \<Rightarrow> Inl e
      | Inr url \<Rightarrow>
     (case template_string url of
        Inl e \<Rightarrow> Inl e
      | Inr url_text \<Rightarrow>
     (case get_prop item (js ''type'') of
        Inl e \<Rightarrow> Inl e
      | Inr type \<Rightarrow>
     (case get_prop item (js ''name'') of
        Inl e \<Rightarrow> Inl e
      | Inr name \<Rightarrow>
     (case template_string name of
        Inl e \<Rightarrow> Inl e
      | Inr name_text \<Rightarrow>
          Inr (nl 24 @ js ''<a href=\"'' @ url_text @ js ''\" class=\"suggestion-item\">'' @
               nl 28 @ js ''<i class=\"bi '' @
               (if type = JStr (js ''folder'') then js ''bi-folder'' else js ''bi-file-earmark'') @
               js '' me-2\"></i>'' @
               nl 28 @ name_text @
               nl 24 @ js ''</a>'' @
               nl 20))))))"

text \<open>
  The function passed to \<open>.then(data => ...)\<close>. \<open>data.length\<close> throws on \<open>null\<close>;
  \<open>data.map\<close> is a function only when the data is an array, and calling it on anything
  else throws. The assignment to \<open>innerHTML\<close> happens after every item has been
  converted, so an exception leaves the panel as it was.
\<close>

definition render :: "jsval \<Rightarrow> panel \<Rightarrow> js_error + panel" where
  "render data p =
     (case get_prop data (js ''length'') of
        Inl e \<Rightarrow> Inl e
      | Inr len \<Rightarrow>
          if len = JNum 0 then Inr (p\<lparr>display := js ''none''\<rparr>)
          else
            (case data of
               JArr items \<Rightarrow>
                 (case sequence (map suggestion_item items) of
                    Inl e \<Rightarrow> Inl e
                  | Inr strs \<Rightarrow> Inr (p\<lparr>innerHTML := concat strs, display := js ''block''\<rparr>))
             | _ \<Rightarrow> Inl TypeError))"

subsection \<open>The controller\<close>

text \<open>
  The listeners are set up when the page has a search input. The state they share:
  the panel, the pending debounce timer (the time it
  is due at and the query its callback has captured), the URLs passed to \<open>fetch\<close> so
  far in the order of the calls, the requests still unanswered (by their position in
  that list), and the console. Time is a count of milliseconds.
\<close>

record controller =
  container :: panel
  timeout :: "(nat \<times> jsstring) option"
  fetched :: "jsstring list"
  in_flight :: "nat list"
  console :: "log_entry list"

definition init :: controller where
  "init = \<lparr>container = \<lparr>innerHTML = js '''', display = js ''''\<rparr>,
           timeout = None, fetched = [], in_flight = [], console = []\<rparr>"

text \<open>The \<open>input\<close> listener, run at time \<open>now\<close> with the input's \<open>value\<close>.\<close>

definition on_input :: "nat \<Rightarrow> jsstring \<Rightarrow> controller \<Rightarrow> controller" where
  "on_input now val s =
     (let s = s\<lparr>timeout := None\<rparr>;
          query = trim val
      in if length query < 2
         then s\<lparr>container := (container s)\<lparr>innerHTML := js '''', display := js ''none''\<rparr>\<rparr>
         else s\<lparr>timeout := Some (now + 300, query)\<rparr>)"

text \<open>
  The timer's callback. When \<open>encodeURIComponent\<close> throws, the exception leaves the
  callback before \<open>fetch\<close> is called, and nothing catches it.
\<close>

definition on_timeout :: "jsstring \<Rightarrow> controller \<Rightarrow> controller" where
  "on_timeout query s =
     (case encodeURIComponent query of
        Inl e \<Rightarrow> s\<lparr>console := console s @ [Uncaught e]\<rparr>
      | Inr q \<Rightarrow> s\<lparr>fetched := fetched s @ [js ''/api/search/suggest?q='' @ q],
                   in_flight := in_flight s @ [length (fetched s)]\<rparr>)"

text \<open>
  The promise chain of request \<open>i\<close> once its response is there:
  \<open>.then(res => res.json()).then(data => ...).catch(err => console.error(...))\<close>.
  The HTTP status is not read.
\<close>

definition on_response :: "nat \<Rightarrow> response \<Rightarrow> controller \<Rightarrow> controller" where
  "on_response i r s =
     (if i \<notin> set (in_flight s) then s
      else
        let s = s\<lparr>in_flight := removeAll i (in_flight s)\<rparr>
        in case r of
             NetworkFailure \<Rightarrow>
               s\<lparr>console := console s @ [ConsoleError (js ''Search error:'') NetworkError]\<rparr>
           | Response st None \<Rightarrow>
               s\<lparr>console := console s @ [ConsoleError (js ''Search error:'') SyntaxError]\<rparr>
           | Response st (Some data) \<Rightarrow>
               (case render data (container s) of
                  Inl e \<Rightarrow> s\<lparr>console := console s @ [ConsoleError (js ''Search error:'') e]\<rparr>
                | Inr p \<Rightarrow> s\<lparr>container := p\<rparr>))"

text \<open>
  The document's \<open>click\<close> listener. \<open>contains\<close> holds of a node and of its descendants,
  so a target is the search input, a node of the panel, or a node outside both; among
  the nodes outside are those of the star buttons that \<open>initStarButtons\<close> has bound.
\<close>

datatype click_target = SearchInput | PanelNode | StarButtonNode | OutsideNode

definition on_click :: "click_target \<Rightarrow> controller \<Rightarrow> controller" where
  "on_click target s =
     (if target \<noteq> SearchInput \<and> target \<noteq> PanelNode
      then s\<lparr>container := (container s)\<lparr>display := js ''none''\<rparr>\<rparr>
      else s)"

text \<open>
  What the pointer sends to the page. No script listens for a pointer-down (or a
  mouse-down). A click in a star button meets the button's own listener first, which
  calls \<open>e.stopPropagation()\<close>, and so never arrives at the document's listener; every
  other click does.
\<close>

datatype pointer_event = PointerDown click_target | PointerClick click_target

fun dispatch :: "pointer_event \<Rightarrow> controller \<Rightarrow> controller" where
  "dispatch (PointerDown target) s = s"
| "dispatch (PointerClick target) s = (if target = StarButtonNode then s else on_click target s)"

subsection \<open>Runs\<close>

text \<open>
  Time passing up to \<open>t\<close>: a timer that is due by then fires. An event at time \<open>t\<close> is
  handled after the timers due by \<open>t\<close>.
\<close>

definition advance :: "nat \<Rightarrow> controller \<Rightarrow> controller" where
  "advance t s =
     (case timeout s of
        None \<Rightarrow> s
      | Some (due, query) \<Rightarrow> if due \<le> t then on_timeout query (s\<lparr>timeout := None\<rparr>) else s)"

datatype event =
    Input nat jsstring
  | Arrive nat nat response
  | Pointer nat pointer_event

fun step :: "event \<Rightarrow> controller \<Rightarrow> controller" where
  "step (Input t val) s = on_input t val (advance t s)"
| "step (Arrive t i r) s = on_response i r (advance t s)"
| "step (Pointer t ev) s = dispatch ev (advance t s)"

fun run :: "event list \<Rightarrow> controller \<Rightarrow> controller" where
  "run [] s = s"
| "run (e # es) s = run es (step e s)"

subsection \<open>Suggestions and the entries a reader expects\<close>

text \<open>
  A suggestion as the lookup endpoint sends it, \<open>{name, url, type}\<close> with string
  fields, and the JSON object it arrives as.
\<close>

record suggestion =
  sg_name :: jsstring
  sg_url :: jsstring
  sg_type :: jsstring

definition suggestion_val :: "suggestion \<Rightarrow> jsval" where
  "suggestion_val g =
     JObj [(js ''name'', JStr (sg_name g)), (js ''url'', JStr (sg_url g)),
           (js ''type'', JStr (sg_type g))]"

text \<open>
  An entry of the panel as the specification describes it: a link target, an icon
  keyed by the type, and a label; and the anchor element that shows it.
\<close>

datatype icon_kind = FolderIcon | FileIcon

record entry =
  href :: jsstring
  entry_icon :: icon_kind
  label :: jsstring

definition entry_of :: "suggestion \<Rightarrow> entry" where
  "entry_of g =
     \<lparr>href = sg_url g,
      entry_icon = (if sg_type g = js ''folder'' then FolderIcon else FileIcon),
      label = sg_name g\<rparr>"

definition icon_class :: "icon_kind \<Rightarrow> jsstring" where
  "icon_class k = (case k of FolderIcon \<Rightarrow> js ''bi-folder'' | FileIcon \<Rightarrow> js ''bi-file-earmark'')"

definition anchor :: "entry \<Rightarrow> jsstring" where
  "anchor e =
     nl 24 @ js ''<a href=\"'' @ href e @ js ''\" class=\"suggestion-item\">'' @
     nl 28 @ js ''<i class=\"bi '' @ icon_class (entry_icon e) @ js '' me-2\"></i>'' @
     nl 28 @ label e @
     nl 24 @ js ''</a>'' @
     nl 20"

text \<open>
  A suggestion whose url has no double quote and whose name has no \<open><\<close>: neither can
  end the attribute or the text it is put into.
\<close>

definition clean :: "suggestion \<Rightarrow> bool" where
  "clean g \<longleftrightarrow> 0x22 \<notin> set (sg_url g) \<and> 0x3C \<notin> set (sg_name g)"

text \<open>A burst of keystrokes: each within 300 ms of the one before.\<close>

fun burst :: "(nat \<times> jsstring) list \<Rightarrow> bool" where
  "burst [] = True"
| "burst [k] = True"
| "burst (k # k' # ks) = (fst k \<le> fst k' \<and> fst k' < fst k + 300 \<and> burst (k' # ks))"

fun type_keys :: "(nat \<times> jsstring) list \<Rightarrow> controller \<Rightarrow> controller" where
  "type_keys [] s = s"
| "type_keys ((t, val) # ks) s = type_keys ks (step (Input t val) s)"

section \<open>Alerts that hide themselves (\<open>initAutoHideAlerts\<close>)\<close>

text \<open>
  The page is the list of its elements in document order, so that the element another
  one lies directly in comes before it. Of an element the function touches the class
  list, two style properties, and the place it hangs at: directly under a node of
  the document that is not an element of the list (the body), inside the element at an
  earlier position, or nowhere once \<open>remove()\<close> has taken it off its parent.
\<close>

datatype place = InDocument | Inside nat | Detached

record element =
  classes :: "jsstring list"
  transition :: jsstring
  opacity :: jsstring
  parent :: place

text \<open>
  The two callbacks passed to \<open>setTimeout\<close>, for the element at a position of the
  page: the outer one fades the alert and sets the inner one, which removes it. A
  pending timer is the time it is due at and its callback; the list is in the order
  of the \<open>setTimeout\<close> calls.
\<close>

datatype task = Fade nat | Remove nat

record page =
  elements :: "element list"
  timers :: "(nat \<times> task) list"

text \<open>
  \<open>document.querySelectorAll('.alert').forEach(...)\<close>, called at time \<open>now\<close>: a timer of
  5000 ms for every element with the class \<open>alert\<close> and without \<open>alert-permanent\<close>.
\<close>

definition auto_hide :: "element \<Rightarrow> bool" where
  "auto_hide el \<longleftrightarrow>
     js ''alert'' \<in> set (classes el) \<and> js ''alert-permanent'' \<notin> set (classes el)"

fun schedule_alerts :: "nat \<Rightarrow> nat \<Rightarrow> element list \<Rightarrow> (nat \<times> task) list" where
  "schedule_alerts now i [] = []"
| "schedule_alerts now i (el # els) =
     (if auto_hide el then [(now + 5000, Fade i)] else []) @ schedule_alerts now (Suc i) els"

definition initAutoHideAlerts :: "nat \<Rightarrow> page \<Rightarrow> page" where
  "initAutoHideAlerts now p = p\<lparr>timers := timers p @ schedule_alerts now 0 (elements p)\<rparr>"

definition fade :: "element \<Rightarrow> element" where
  "fade el = el\<lparr>transition := js ''opacity 0.5s'', opacity := js ''0''\<rparr>"

text \<open>\<open>alert.remove()\<close> takes the element off its parent; what lies inside it goes with it.\<close>

definition detach :: "element \<Rightarrow> element" where
  "detach el = el\<lparr>parent := Detached\<rparr>"

text \<open>
  An element is in the document when the chain of parents from it ends under the
  body. \<open>lineage\<close> is that chain: the element and the elements it lies in, innermost
  first.
\<close>

function in_document :: "element list \<Rightarrow> nat \<Rightarrow> bool" where
  "in_document els i =
     (if length els \<le> i then False
      else case parent (els ! i) of
             InDocument \<Rightarrow> True
           | Detached \<Rightarrow> False
           | Inside j \<Rightarrow> if j < i then in_document els j else False)"
  by pat_completeness auto
termination
  by (relation "measure (\<lambda>(els, i). i)") auto

declare in_document.simps [simp del]

function lineage :: "element list \<Rightarrow> nat \<Rightarrow> nat list" where
  "lineage els i =
     (if length els \<le> i then []
      else i # (case parent (els ! i) of
                  Inside j \<Rightarrow> if j < i then lineage els j else []
                | _ \<Rightarrow> []))"
  by pat_completeness auto
termination
  by (relation "measure (\<lambda>(els, i). i)") auto

declare lineage.simps [simp del]

text \<open>A callback run at time \<open>t\<close>.\<close>

fun exec :: "nat \<Rightarrow> task \<Rightarrow> page \<Rightarrow> page" where
  "exec t (Fade i) p =
     p\<lparr>elements := (elements p)[i := fade (elements p ! i)],
       timers := timers p @ [(t + 500, Remove i)]\<rparr>"
| "exec t (Remove i) p = p\<lparr>elements := (elements p)[i := detach (elements p ! i)]\<rparr>"

text \<open>
  The timer that fires next: the one due first, and among those due at the same time
  the one set first.
\<close>

fun earliest :: "(nat \<times> task) list \<Rightarrow> (nat \<times> task) option" where
  "earliest [] = None"
| "earliest (x # xs) =
     (case earliest xs of
        None \<Rightarrow> Some x
      | Some y \<Rightarrow> if fst x \<le> fst y then Some x else Some y)"

fun weight :: "nat \<times> task \<Rightarrow> nat" where
  "weight (d, Fade i) = 2"
| "weight (d, Remove i) = 1"

lemma earliest_in_set: "earliest xs = Some x \<Longrightarrow> x \<in> set xs"
  by (induction xs arbitrary: x) (auto split: option.splits if_splits)

lemma weight_exec:
  "x \<in> set (timers p) \<Longrightarrow>
   sum_list (map weight (timers (exec (fst x) (snd x) (p\<lparr>timers := remove1 x (timers p)\<rparr>))))
   < sum_list (map weight (timers p))"
  by (cases x; cases "snd x") (auto simp: sum_list_map_remove1)

text \<open>
  Time passing up to \<open>T\<close>: the timers due by then fire one after the other, each at
  the time it is due at.
\<close>

function run_until :: "nat \<Rightarrow> page \<Rightarrow> page" where
  "run_until T p =
     (case earliest (timers p) of
        None \<Rightarrow> p
      | Some x \<Rightarrow>
          if fst x \<le> T
          then run_until T (exec (fst x) (snd x) (p\<lparr>timers := remove1 x (timers p)\<rparr>))
          else p)"
  by pat_completeness auto
termination
  by (relation "measure (\<lambda>(T, p). sum_list (map weight (timers p)))")
     (auto dest!: earliest_in_set intro: weight_exec)

declare run_until.simps [simp del]

text \<open>
  What \<open>run_until\<close> does to the element at position \<open>i\<close>, read off the pending timers:
  it is faded when a \<open>Fade i\<close> is due by \<open>T\<close>, and removed when a \<open>Remove i\<close> is due by
  \<open>T\<close> or a \<open>Fade i\<close> is due 500 ms or more before \<open>T\<close>.
\<close>

definition fade_due :: "page \<Rightarrow> nat \<Rightarrow> nat \<Rightarrow> bool" where
  "fade_due p T i \<longleftrightarrow> (\<exists>d. (d, Fade i) \<in> set (timers p) \<and> d \<le> T)"

definition remove_due :: "page \<Rightarrow> nat \<Rightarrow> nat \<Rightarrow> bool" where
  "remove_due p T i \<longleftrightarrow>
     (\<exists>d. (d, Remove i) \<in> set (timers p) \<and> d \<le> T) \<or>
     (\<exists>d. (d, Fade i) \<in> set (timers p) \<and> d + 500 \<le> T)"

definition outcome :: "bool \<Rightarrow> bool \<Rightarrow> element \<Rightarrow> element" where
  "outcome f r el = (if r then detach else id) ((if f then fade else id) el)"

section \<open>File size validation (static/js/main.js)\<close>

text \<open>
  \<open>validateFileSize(input, maxSizeMB)\<close>. A \<open>File\<close> has a name and a size in bytes (a
  non-negative integer). \<open>maxSizeMB\<close> is a finite number; multiplying a binary
  floating-point number by \<open>1024 * 1024\<close> is exact, so the rationals carry the comparison
  (\<open>NaN\<close> and the infinities are outside the model). The \<open>alert\<close> dialog is recorded as
  an event holding the two values interpolated into its message.
\<close>

record js_file =
  file_name :: jsstring
  file_size :: nat

record file_input =
  files :: "js_file list"
  input_value :: jsstring

datatype dialog = TooLarge jsstring rat

fun validateFileSize_loop ::
  "rat \<Rightarrow> rat \<Rightarrow> js_file list \<Rightarrow> file_input \<Rightarrow> bool \<times> file_input \<times> dialog list" where
  "validateFileSize_loop maxSizeMB maxSize [] input = (True, input, [])"
| "validateFileSize_loop maxSizeMB maxSize (f # fs) input =
     (if of_nat (file_size f) > maxSize
      then (False, input\<lparr>input_value := js ''''\<rparr>, [TooLarge (file_name f) maxSizeMB])
      else validateFileSize_loop maxSizeMB maxSize fs input)"

definition validateFileSize :: "file_input \<Rightarrow> rat \<Rightarrow> bool \<times> file_input \<times> dialog list" where
  "validateFileSize input maxSizeMB =
     (let maxSize = maxSizeMB * 1024 * 1024
      in validateFileSize_loop maxSizeMB maxSize (files input) input)"

section \<open>Properties of numbers and strings\<close>

















section \<open>Properties of the star buttons\<close>









section \<open>Properties of the search suggestions\<close>

lemmas string_evals = js_def trim_def is_whitespace_def nl_def
lemmas uri_evals = is_unreserved_def is_low_surrogate_def is_high_surrogate_def utf8_def
  percent_escape_def hex_digit_def

lemma sequence_map_Inr:
  "(\<And>x. x \<in> set xs \<Longrightarrow> f x = Inr (g x)) \<Longrightarrow> sequence (map f xs) = Inr (map g xs)"
  by (induction xs) simp_all

lemma suggestion_item_suggestion_val:
  "suggestion_item (suggestion_val g) = Inr (anchor (entry_of g))"
  by (simp add: suggestion_item_def suggestion_val_def anchor_def icon_class_def entry_of_def js_def)

lemma render_suggestions:
  assumes "gs \<noteq> []"
  shows "render (JArr (map suggestion_val gs)) p =
         Inr (p\<lparr>innerHTML := concat (map (\<lambda>g. anchor (entry_of g)) gs), display := js ''block''\<rparr>)"
proof -
  have "sequence (map suggestion_item (map suggestion_val gs)) =
        Inr (map (\<lambda>g. anchor (entry_of g)) gs)"
    unfolding map_map by (rule sequence_map_Inr) (simp add: suggestion_item_suggestion_val)
  with assms show ?thesis by (simp add: render_def)
qed

lemma render_empty_array: "render (JArr []) p = Inr (p\<lparr>display := js ''none''\<rparr>)"
  by (simp add: render_def)

lemma on_input_short:
  "length (trim val) < 2 \<Longrightarrow>
   on_input now val s =
   s\<lparr>timeout := None, container := \<lparr>innerHTML = js '''', display = js ''none''\<rparr>\<rparr>"
  by (simp add: on_input_def Let_def)

lemma advance_no_timer: "timeout s = None \<Longrightarrow> advance t s = s"
  by (simp add: advance_def)

lemma step_Input_fields:
  "fetched (step (Input t val) s) = fetched (advance t s)"
  "in_flight (step (Input t val) s) = in_flight (advance t s)"
  "console (step (Input t val) s) = console (advance t s)"
  "timeout (step (Input t val) s) =
     (if length (trim val) < 2 then None else Some (t + 300, trim val))"
  by (simp_all add: on_input_def Let_def)

lemma advance_after_Input:
  "t' < t + 300 \<Longrightarrow> advance t' (step (Input t val) s) = step (Input t val) s"
  by (simp add: advance_def step_Input_fields(4) del: step.simps)

lemma type_keys_burst:
  "ks \<noteq> [] \<Longrightarrow> burst ks \<Longrightarrow>
   fetched (type_keys ks s) = fetched (advance (fst (hd ks)) s) \<and>
   in_flight (type_keys ks s) = in_flight (advance (fst (hd ks)) s) \<and>
   console (type_keys ks s) = console (advance (fst (hd ks)) s) \<and>
   timeout (type_keys ks s) =
     (if length (trim (snd (last ks))) < 2 then None
      else Some (fst (last ks) + 300, trim (snd (last ks))))"
proof (induction ks arbitrary: s rule: burst.induct)
  case 1
  then show ?case by simp
next
  case (2 k)
  obtain t val where k: "k = (t, val)" by (cases k)
  show ?case unfolding k by (simp add: step_Input_fields del: step.simps)
next
  case (3 k k' ks)
  obtain t val where k: "k = (t, val)" by (cases k)
  obtain t' val' where k': "k' = (t', val')" by (cases k')
  from "3.prems"(2) have gap: "t' < t + 300" and b: "burst (k' # ks)"
    by (simp_all add: k k')
  have adv: "advance t' (step (Input t val) s) = step (Input t val) s"
    using gap by (rule advance_after_Input)
  from "3.IH" [OF _ b, of "step (Input t val) s"]
  show ?case
    by (simp add: k k' adv step_Input_fields del: step.simps)
qed

lemma fetched_on_timeout:
  "fetched (on_timeout q s) = fetched s @
     (case encodeURIComponent q of Inl e \<Rightarrow> [] | Inr u \<Rightarrow> [js ''/api/search/suggest?q='' @ u])"
  by (simp add: on_timeout_def split: sum.splits)

lemma fetched_advance:
  "fetched (advance T s) = fetched s @
     (case timeout s of
        None \<Rightarrow> []
      | Some (due, q) \<Rightarrow>
          if due \<le> T then
            (case encodeURIComponent q of
               Inl e \<Rightarrow> [] | Inr u \<Rightarrow> [js ''/api/search/suggest?q='' @ u])
          else [])"
  by (simp add: advance_def fetched_on_timeout split: option.splits)

lemma on_response_other_in_flight:
  "i \<in> set (in_flight s) \<Longrightarrow> i \<noteq> j \<Longrightarrow> i \<in> set (in_flight (on_response j r s))"
  by (auto simp: on_response_def Let_def split: response.splits option.splits sum.splits)

lemma on_response_rendered:
  "i \<in> set (in_flight s) \<Longrightarrow> render data (container s) = Inr p \<Longrightarrow>
   container (on_response i (Response st (Some data)) s) = p"
  by (simp add: on_response_def Let_def)

lemma on_response_failed:
  assumes "i \<in> set (in_flight s)"
    and "r = NetworkFailure \<and> e = NetworkError \<or>
         r = Response st None \<and> e = SyntaxError \<or>
         r = Response st (Some data) \<and> render data (container s) = Inl e"
  shows "on_response i r s =
         s\<lparr>in_flight := removeAll i (in_flight s),
           console := console s @ [ConsoleError (js ''Search error:'') e]\<rparr>"
  using assms by (auto simp: on_response_def Let_def)

lemmas controller_evals =
  init_def on_input_def on_timeout_def on_response_def on_click_def advance_def render_def
  suggestion_item_def suggestion_val_def anchor_def icon_class_def entry_of_def Let_def

text \<open>
  C3. An input event whose text, once trimmed, is shorter than two code units issues
  no request, cancels the pending debounce timer and leaves the panel hidden and
  empty: the handler changes nothing else, and no timer is left that could issue a
  request later.
\<close>

theorem short_query_no_request:
  assumes "length (trim val) < 2"
  shows "on_input now val s =
           s\<lparr>timeout := None, container := \<lparr>innerHTML = js '''', display = js ''none''\<rparr>\<rparr> \<and>
         fetched (on_input now val s) = fetched s \<and>
         in_flight (on_input now val s) = in_flight s \<and>
         advance t (on_input now val s) = on_input now val s"
  using assms by (simp add: on_input_short advance_no_timer)

text \<open>
  The theorem at the text \<open>" a "\<close>, typed at 1200 ms while a timer for \<open>ph\<close> is pending
  and the panel shows an entry.
\<close>

theorem short_query_no_request_witness:
  "length (trim (js '' a '')) < 2 \<and>
   advance 5000 (on_input 1200 (js '' a '')
     \<lparr>container = \<lparr>innerHTML = js ''<a href=\"/file/9\">x</a>'', display = js ''block''\<rparr>,
      timeout = Some (1400, js ''ph''), fetched = [], in_flight = [], console = []\<rparr>)
   = \<lparr>container = \<lparr>innerHTML = js '''', display = js ''none''\<rparr>,
      timeout = None, fetched = [], in_flight = [], console = []\<rparr>"
  using short_query_no_request [of "js '' a ''" 1200
     "\<lparr>container = \<lparr>innerHTML = js ''<a href=\"/file/9\">x</a>'', display = js ''block''\<rparr>,
      timeout = Some (1400, js ''ph''), fetched = [], in_flight = [], console = []\<rparr>" 5000]
  by (simp add: string_evals on_input_def advance_def)

text \<open>
  C7, as the specification states it, fails: an event outside both the input and the
  panel need not hide the panel. Nothing listens for a pointer-down, and a click in a
  star button is stopped at the button before it reaches the document. Here the panel
  shows an entry, and stays visible after a pointer-down outside and after a click in
  a star button.
\<close>

theorem outside_event_hides_counterexample:
  "container (dispatch (PointerDown OutsideNode)
     \<lparr>container = \<lparr>innerHTML = js ''<a href=\"/file/9\">x</a>'', display = js ''block''\<rparr>,
      timeout = None, fetched = [js ''/api/search/suggest?q=ph''], in_flight = [0], console = []\<rparr>)
   = \<lparr>innerHTML = js ''<a href=\"/file/9\">x</a>'', display = js ''block''\<rparr> \<and>
   container (dispatch (PointerClick StarButtonNode)
     \<lparr>container = \<lparr>innerHTML = js ''<a href=\"/file/9\">x</a>'', display = js ''block''\<rparr>,
      timeout = None, fetched = [js ''/api/search/suggest?q=ph''], in_flight = [0], console = []\<rparr>)
   = \<lparr>innerHTML = js ''<a href=\"/file/9\">x</a>'', display = js ''block''\<rparr> \<and>
   js ''block'' \<noteq> js ''none''"
  by (simp add: js_def)

text \<open>
  C7, amended. A click whose target is outside both the search input and the panel,
  and not in a star button, hides the panel and changes nothing else: the markup of
  the panel, the requests in flight and the pending timer stay as they are. A click
  on the input, inside the panel or in a star button changes nothing at all, and
  neither does a pointer-down, whatever its target.
\<close>

theorem click_reaching_document_hides_only:
  "dispatch (PointerClick OutsideNode) s =
     s\<lparr>container := (container s)\<lparr>display := js ''none''\<rparr>\<rparr> \<and>
   innerHTML (container (dispatch (PointerClick OutsideNode) s)) = innerHTML (container s) \<and>
   in_flight (dispatch (PointerClick OutsideNode) s) = in_flight s \<and>
   timeout (dispatch (PointerClick OutsideNode) s) = timeout s \<and>
   (target \<noteq> OutsideNode \<longrightarrow> dispatch (PointerClick target) s = s) \<and>
   dispatch (PointerDown target) s = s"
  by (cases target) (simp_all add: on_click_def)

text \<open>The theorem at a click inside the panel and at one outside, the panel showing an entry.\<close>

theorem click_reaching_document_hides_only_witness:
  "dispatch (PointerClick PanelNode)
     \<lparr>container = \<lparr>innerHTML = js ''<a href=\"/file/9\">x</a>'', display = js ''block''\<rparr>,
      timeout = None, fetched = [js ''/api/search/suggest?q=ph''], in_flight = [0], console = []\<rparr>
   = \<lparr>container = \<lparr>innerHTML = js ''<a href=\"/file/9\">x</a>'', display = js ''block''\<rparr>,
      timeout = None, fetched = [js ''/api/search/suggest?q=ph''], in_flight = [0], console = []\<rparr> \<and>
   dispatch (PointerClick OutsideNode)
     \<lparr>container = \<lparr>innerHTML = js ''<a href=\"/file/9\">x</a>'', display = js ''block''\<rparr>,
      timeout = None, fetched = [js ''/api/search/suggest?q=ph''], in_flight = [0], console = []\<rparr>
   = \<lparr>container = \<lparr>innerHTML = js ''<a href=\"/file/9\">x</a>'', display = js ''none''\<rparr>,
      timeout = None, fetched = [js ''/api/search/suggest?q=ph''], in_flight = [0], console = []\<rparr>"
  using click_reaching_document_hides_only [of
     "\<lparr>container = \<lparr>innerHTML = js ''<a href=\"/file/9\">x</a>'', display = js ''block''\<rparr>,
      timeout = None, fetched = [js ''/api/search/suggest?q=ph''], in_flight = [0], console = []\<rparr>"
     PanelNode]
  by (simp add: on_click_def)

text \<open>
  C2, as the specification states it, fails: a burst that ends on a text shorter than
  two code units issues no request at all. Here \<open>ab\<close> is typed and, 100 ms later,
  cut back to \<open>a\<close>.
\<close>

theorem burst_one_request_counterexample:
  "burst [(0, js ''ab''), (100, js ''a'')] \<and>
   fetched (advance 1000 (type_keys [(0, js ''ab''), (100, js ''a'')] init)) = []"
  by (simp add: string_evals controller_evals)

text \<open>
  C2, amended. A burst of input events, each within 300 ms of the one before, issues
  no request while it lasts nor in the 300 ms after its last event. Once those 300 ms
  have passed it has issued exactly one request if the final text, trimmed, has two
  code units or more and \<open>encodeURIComponent\<close> accepts it, and that request carries
  the trimmed final text; otherwise it has issued none. The requests are counted from
  the state at the first event of the burst.
\<close>

theorem burst_one_request:
  assumes "ks \<noteq> []" and "burst ks"
  shows "fetched (advance T (type_keys ks s)) =
         fetched (advance (fst (hd ks)) s) @
         (if length (trim (snd (last ks))) < 2 \<or> T < fst (last ks) + 300 then []
          else case encodeURIComponent (trim (snd (last ks))) of
                 Inl e \<Rightarrow> []
               | Inr u \<Rightarrow> [js ''/api/search/suggest?q='' @ u])"
  using type_keys_burst [OF assms, of s]
  by (simp add: fetched_advance not_less)

text \<open>The theorem at \<open>p\<close>, \<open>ph\<close>, \<open>phy \<close> typed at 0, 100 and 250 ms.\<close>

theorem burst_one_request_witness:
  "[(0, js ''p''), (100, js ''ph''), (250, js ''phy '')] \<noteq> [] \<and>
   burst [(0, js ''p''), (100, js ''ph''), (250, js ''phy '')] \<and>
   fetched (advance 549 (type_keys [(0, js ''p''), (100, js ''ph''), (250, js ''phy '')] init)) = [] \<and>
   fetched (advance 550 (type_keys [(0, js ''p''), (100, js ''ph''), (250, js ''phy '')] init))
     = [js ''/api/search/suggest?q=phy'']"
  using burst_one_request [of "[(0, js ''p''), (100, js ''ph''), (250, js ''phy '')]" 549 init]
        burst_one_request [of "[(0, js ''p''), (100, js ''ph''), (250, js ''phy '')]" 550 init]
  by (simp add: string_evals uri_evals init_def advance_def)

text \<open>
  C5, as the specification states it, fails: an empty array hides the panel but does
  not clear it. Here the panel shows the answer to \<open>ph\<close> when the answer to \<open>phx\<close>, an
  empty array, arrives: the markup of the first answer is still there.
\<close>

theorem empty_response_clears_counterexample:
  "container (run
     [Input 0 (js ''ph''),
      Arrive 400 0 (Response 200 (Some (JArr [suggestion_val
         \<lparr>sg_name = js ''Physics 101'', sg_url = js ''/folder/5'', sg_type = js ''folder''\<rparr>]))),
      Input 500 (js ''phx''),
      Arrive 900 1 (Response 200 (Some (JArr [])))] init)
   = \<lparr>innerHTML = anchor \<lparr>href = js ''/folder/5'', entry_icon = FolderIcon,
                            label = js ''Physics 101''\<rparr>,
      display = js ''none''\<rparr> \<and>
   anchor \<lparr>href = js ''/folder/5'', entry_icon = FolderIcon, label = js ''Physics 101''\<rparr>
     \<noteq> js ''''"
  by (simp add: string_evals uri_evals controller_evals)

text \<open>
  C5, amended. A response whose suggestion array is empty makes the panel hidden and
  leaves its content as it was.
\<close>

theorem empty_response_hides:
  "render (JArr []) p = Inr (p\<lparr>display := js ''none''\<rparr>) \<and>
   (i \<in> set (in_flight s) \<longrightarrow>
      container (on_response i (Response st (Some (JArr []))) s) =
        (container s)\<lparr>display := js ''none''\<rparr> \<and>
      innerHTML (container (on_response i (Response st (Some (JArr []))) s)) =
        innerHTML (container s))"
  by (simp add: render_empty_array on_response_rendered)

theorem empty_response_hides_witness:
  "0 \<in> set (in_flight
     \<lparr>container = \<lparr>innerHTML = js ''<a href=\"/file/9\">x</a>'', display = js ''block''\<rparr>,
      timeout = None, fetched = [js ''/api/search/suggest?q=ph''], in_flight = [0], console = []\<rparr>) \<and>
   on_response 0 (Response 200 (Some (JArr [])))
     \<lparr>container = \<lparr>innerHTML = js ''<a href=\"/file/9\">x</a>'', display = js ''block''\<rparr>,
      timeout = None, fetched = [js ''/api/search/suggest?q=ph''], in_flight = [0], console = []\<rparr>
   = \<lparr>container = \<lparr>innerHTML = js ''<a href=\"/file/9\">x</a>'', display = js ''none''\<rparr>,
      timeout = None, fetched = [js ''/api/search/suggest?q=ph''], in_flight = [], console = []\<rparr>"
  using empty_response_hides [of
     "\<lparr>innerHTML = js ''<a href=\"/file/9\">x</a>'', display = js ''block''\<rparr>" 0
     "\<lparr>container = \<lparr>innerHTML = js ''<a href=\"/file/9\">x</a>'', display = js ''block''\<rparr>,
      timeout = None, fetched = [js ''/api/search/suggest?q=ph''], in_flight = [0], console = []\<rparr>"
     200]
  by (simp add: on_response_def)

text \<open>
  C4, as the specification states it, fails for a non-2xx status: the status is never
  read, so a response with status 503 and a well-formed JSON body is handled like any
  other. Here its empty array hides the suggestions the panel was showing.
\<close>

theorem failure_keeps_panel_counterexample:
  "container (run
     [Input 0 (js ''ph''),
      Arrive 400 0 (Response 200 (Some (JArr [suggestion_val
         \<lparr>sg_name = js ''Physics 101'', sg_url = js ''/folder/5'', sg_type = js ''folder''\<rparr>]))),
      Input 500 (js ''phy'')] init)
   = \<lparr>innerHTML = anchor \<lparr>href = js ''/folder/5'', entry_icon = FolderIcon,
                            label = js ''Physics 101''\<rparr>,
      display = js ''block''\<rparr> \<and>
   container (run
     [Input 0 (js ''ph''),
      Arrive 400 0 (Response 200 (Some (JArr [suggestion_val
         \<lparr>sg_name = js ''Physics 101'', sg_url = js ''/folder/5'', sg_type = js ''folder''\<rparr>]))),
      Input 500 (js ''phy''),
      Arrive 900 1 (Response 503 (Some (JArr [])))] init)
   = \<lparr>innerHTML = anchor \<lparr>href = js ''/folder/5'', entry_icon = FolderIcon,
                            label = js ''Physics 101''\<rparr>,
      display = js ''none''\<rparr> \<and>
   js ''block'' \<noteq> js ''none''"
  by (simp add: string_evals uri_evals controller_evals)

text \<open>
  C4, amended. When a lookup fails at the transport, or its body is not well-formed
  JSON, or handling the parsed body throws (as for \<open>null\<close> or for an object with no
  \<open>length\<close>), whatever the HTTP status, the controller writes one \<open>Search error:\<close>
  line to the console and changes nothing else but the set of requests in flight: the
  panel keeps its visibility and content, no request is issued and no timer is set.
  The HTTP status itself is not read: a non-2xx response with a JSON array body is
  rendered like a successful one.
\<close>

theorem failure_keeps_panel:
  assumes "i \<in> set (in_flight s)"
    and "r = NetworkFailure \<and> e = NetworkError \<or>
         r = Response st None \<and> e = SyntaxError \<or>
         r = Response st (Some data) \<and> render data (container s) = Inl e"
  shows "container (on_response i r s) = container s \<and>
         fetched (on_response i r s) = fetched s \<and>
         timeout (on_response i r s) = timeout s \<and>
         in_flight (on_response i r s) = removeAll i (in_flight s) \<and>
         console (on_response i r s) = console s @ [ConsoleError (js ''Search error:'') e]"
  by (simp add: on_response_failed [OF assms])

text \<open>
  The theorem at a transport failure, at a body that is not JSON and at the body
  \<open>{"error": "busy"}\<close> with status 500, each arriving while the panel shows an entry.
\<close>

theorem failure_keeps_panel_witness:
  "on_response 0 NetworkFailure
     \<lparr>container = \<lparr>innerHTML = js ''<a href=\"/file/9\">x</a>'', display = js ''block''\<rparr>,
      timeout = None, fetched = [js ''/api/search/suggest?q=ph''], in_flight = [0], console = []\<rparr>
   = \<lparr>container = \<lparr>innerHTML = js ''<a href=\"/file/9\">x</a>'', display = js ''block''\<rparr>,
      timeout = None, fetched = [js ''/api/search/suggest?q=ph''], in_flight = [],
      console = [ConsoleError (js ''Search error:'') NetworkError]\<rparr> \<and>
   on_response 0 (Response 502 None)
     \<lparr>container = \<lparr>innerHTML = js ''<a href=\"/file/9\">x</a>'', display = js ''block''\<rparr>,
      timeout = None, fetched = [js ''/api/search/suggest?q=ph''], in_flight = [0], console = []\<rparr>
   = \<lparr>container = \<lparr>innerHTML = js ''<a href=\"/file/9\">x</a>'', display = js ''block''\<rparr>,
      timeout = None, fetched = [js ''/api/search/suggest?q=ph''], in_flight = [],
      console = [ConsoleError (js ''Search error:'') SyntaxError]\<rparr> \<and>
   on_response 0 (Response 500 (Some (JObj [(js ''error'', JStr (js ''busy''))])))
     \<lparr>container = \<lparr>innerHTML = js ''<a href=\"/file/9\">x</a>'', display = js ''block''\<rparr>,
      timeout = None, fetched = [js ''/api/search/suggest?q=ph''], in_flight = [0], console = []\<rparr>
   = \<lparr>container = \<lparr>innerHTML = js ''<a href=\"/file/9\">x</a>'', display = js ''block''\<rparr>,
      timeout = None, fetched = [js ''/api/search/suggest?q=ph''], in_flight = [],
      console = [ConsoleError (js ''Search error:'') TypeError]\<rparr>"
  using failure_keeps_panel [of 0
     "\<lparr>container = \<lparr>innerHTML = js ''<a href=\"/file/9\">x</a>'', display = js ''block''\<rparr>,
      timeout = None, fetched = [js ''/api/search/suggest?q=ph''], in_flight = [0], console = []\<rparr>"
     NetworkFailure NetworkError 0 JNull]
    failure_keeps_panel [of 0
     "\<lparr>container = \<lparr>innerHTML = js ''<a href=\"/file/9\">x</a>'', display = js ''block''\<rparr>,
      timeout = None, fetched = [js ''/api/search/suggest?q=ph''], in_flight = [0], console = []\<rparr>"
     "Response 502 None" SyntaxError 502 JNull]
    failure_keeps_panel [of 0
     "\<lparr>container = \<lparr>innerHTML = js ''<a href=\"/file/9\">x</a>'', display = js ''block''\<rparr>,
      timeout = None, fetched = [js ''/api/search/suggest?q=ph''], in_flight = [0], console = []\<rparr>"
     "Response 500 (Some (JObj [(js ''error'', JStr (js ''busy''))]))" TypeError 500
     "JObj [(js ''error'', JStr (js ''busy''))]"]
  by (simp add: on_response_def render_def js_def)

text \<open>
  C1, as the specification states it, fails: requests carry no sequence number and
  every response is rendered when it arrives. Here \<open>ph\<close> is looked up (request 0), then
  \<open>phy\<close> (request 1); the answer to request 1 arrives at 800 ms and is shown, and the
  answer to request 0, arriving at 900 ms, replaces it.
\<close>

theorem stale_response_dropped_counterexample:
  "fetched (run
     [Input 0 (js ''ph''), Input 400 (js ''phy''),
      Arrive 800 1 (Response 200 (Some (JArr [suggestion_val
         \<lparr>sg_name = js ''Physics 101'', sg_url = js ''/folder/5'', sg_type = js ''folder''\<rparr>])))]
     init)
   = [js ''/api/search/suggest?q=ph'', js ''/api/search/suggest?q=phy''] \<and>
   container (run
     [Input 0 (js ''ph''), Input 400 (js ''phy''),
      Arrive 800 1 (Response 200 (Some (JArr [suggestion_val
         \<lparr>sg_name = js ''Physics 101'', sg_url = js ''/folder/5'', sg_type = js ''folder''\<rparr>])))]
     init)
   = \<lparr>innerHTML = anchor \<lparr>href = js ''/folder/5'', entry_icon = FolderIcon,
                            label = js ''Physics 101''\<rparr>,
      display = js ''block''\<rparr> \<and>
   container (run
     [Input 0 (js ''ph''), Input 400 (js ''phy''),
      Arrive 800 1 (Response 200 (Some (JArr [suggestion_val
         \<lparr>sg_name = js ''Physics 101'', sg_url = js ''/folder/5'', sg_type = js ''folder''\<rparr>]))),
      Arrive 900 0 (Response 200 (Some (JArr [suggestion_val
         \<lparr>sg_name = js ''Photo.png'', sg_url = js ''/file/9'', sg_type = js ''file''\<rparr>])))]
     init)
   = \<lparr>innerHTML = anchor \<lparr>href = js ''/file/9'', entry_icon = FileIcon,
                            label = js ''Photo.png''\<rparr>,
      display = js ''block''\<rparr> \<and>
   anchor \<lparr>href = js ''/file/9'', entry_icon = FileIcon, label = js ''Photo.png''\<rparr>
     \<noteq> anchor \<lparr>href = js ''/folder/5'', entry_icon = FolderIcon, label = js ''Physics 101''\<rparr>"
  by (simp add: string_evals uri_evals controller_evals)

text \<open>
  C1, amended. Responses are rendered in the order they arrive, whatever the order
  the requests were issued in: when request \<open>i\<close> was issued before request \<open>j\<close> and
  its response arrives after that of \<open>j\<close>, the panel ends up showing the response to
  the older request \<open>i\<close> (for a non-empty suggestion array, its entries, visible).
\<close>

theorem last_arrival_is_shown:
  assumes "i \<in> set (in_flight s)" and "j \<in> set (in_flight s)" and "i < j" and "gs \<noteq> []"
  shows "container (on_response i (Response st (Some (JArr (map suggestion_val gs))))
                      (on_response j r s)) =
         \<lparr>innerHTML = concat (map (\<lambda>g. anchor (entry_of g)) gs), display = js ''block''\<rparr>"
proof -
  from assms(1,3) have "i \<in> set (in_flight (on_response j r s))"
    by (intro on_response_other_in_flight) simp_all
  then show ?thesis
    by (simp add: on_response_rendered [OF _ render_suggestions [OF assms(4)]])
qed

text \<open>
  The theorem where requests 0 and 1 are in flight and the panel is empty: the answer
  to request 1 is \<open>Physics 101\<close>, the later answer to request 0 is \<open>Photo.png\<close>.
\<close>

theorem last_arrival_is_shown_witness:
  "container
     (on_response 0 (Response 200 (Some (JArr (map suggestion_val
          [\<lparr>sg_name = js ''Photo.png'', sg_url = js ''/file/9'', sg_type = js ''file''\<rparr>]))))
       (on_response 1 (Response 200 (Some (JArr [suggestion_val
          \<lparr>sg_name = js ''Physics 101'', sg_url = js ''/folder/5'', sg_type = js ''folder''\<rparr>])))
          \<lparr>container = \<lparr>innerHTML = js '''', display = js ''''\<rparr>, timeout = None,
           fetched = [js ''/api/search/suggest?q=ph'', js ''/api/search/suggest?q=phy''],
           in_flight = [0, 1], console = []\<rparr>))
   = \<lparr>innerHTML = anchor \<lparr>href = js ''/file/9'', entry_icon = FileIcon,
                            label = js ''Photo.png''\<rparr>,
      display = js ''block''\<rparr>"
  using last_arrival_is_shown [of 0
     "\<lparr>container = \<lparr>innerHTML = js '''', display = js ''''\<rparr>, timeout = None,
       fetched = [js ''/api/search/suggest?q=ph'', js ''/api/search/suggest?q=phy''],
       in_flight = [0, 1], console = []\<rparr>" 1
     "[\<lparr>sg_name = js ''Photo.png'', sg_url = js ''/file/9'', sg_type = js ''file''\<rparr>]" 200
     "Response 200 (Some (JArr [suggestion_val
          \<lparr>sg_name = js ''Physics 101'', sg_url = js ''/folder/5'', sg_type = js ''folder''\<rparr>]))"]
  by (simp add: entry_of_def js_def)

lemma split_at_first:
  "c \<notin> set xs \<Longrightarrow> c \<notin> set ys \<Longrightarrow> xs @ c # r = ys @ c # r' \<Longrightarrow> xs = ys \<and> r = r'"
proof (induction xs arbitrary: ys)
  case Nil
  then show ?case by (cases ys) auto
next
  case (Cons x xs)
  then show ?case by (cases ys) auto
qed

lemma icon_class_inj:
  "icon_class k @ js '' me-2\"></i>'' @ r = icon_class k' @ js '' me-2\"></i>'' @ r' \<Longrightarrow>
   k = k' \<and> r = r'"
  by (cases k; cases k') (simp_all add: icon_class_def js_def)

lemma anchor_shape:
  "anchor e @ r =
   (nl 24 @ js ''<a href=\"'') @ (href e @ 0x22 # (js '' class=\"suggestion-item\">'' @ nl 28 @
     js ''<i class=\"bi '' @ (icon_class (entry_icon e) @ js '' me-2\"></i>'' @ (nl 28 @
     ((label e @ nl 24) @ 0x3C # (js ''/a>'' @ nl 20 @ r))))))"
  by (simp add: anchor_def js_def nl_def)

lemma anchor_inj:
  assumes "0x22 \<notin> set (href e)" "0x22 \<notin> set (href e')"
    and "0x3C \<notin> set (label e)" "0x3C \<notin> set (label e')"
    and eq: "anchor e @ r = anchor e' @ r'"
  shows "e = e' \<and> r = r'"
proof -
  from eq [unfolded anchor_shape] have
    "href e @ 0x22 # (js '' class=\"suggestion-item\">'' @ nl 28 @
       js ''<i class=\"bi '' @ (icon_class (entry_icon e) @ js '' me-2\"></i>'' @ (nl 28 @
       ((label e @ nl 24) @ 0x3C # (js ''/a>'' @ nl 20 @ r))))) =
     href e' @ 0x22 # (js '' class=\"suggestion-item\">'' @ nl 28 @
       js ''<i class=\"bi '' @ (icon_class (entry_icon e') @ js '' me-2\"></i>'' @ (nl 28 @
       ((label e' @ nl 24) @ 0x3C # (js ''/a>'' @ nl 20 @ r')))))"
    by (simp only: same_append_eq)
  from split_at_first [OF assms(1,2) this]
  have h: "href e = href e'" and
    "icon_class (entry_icon e) @ js '' me-2\"></i>'' @ (nl 28 @
       ((label e @ nl 24) @ 0x3C # (js ''/a>'' @ nl 20 @ r))) =
     icon_class (entry_icon e') @ js '' me-2\"></i>'' @ (nl 28 @
       ((label e' @ nl 24) @ 0x3C # (js ''/a>'' @ nl 20 @ r')))"
    by (simp_all only: same_append_eq)
  from icon_class_inj [OF this(2)]
  have i: "entry_icon e = entry_icon e'" and
    "(label e @ nl 24) @ 0x3C # (js ''/a>'' @ nl 20 @ r) =
     (label e' @ nl 24) @ 0x3C # (js ''/a>'' @ nl 20 @ r')"
    by (simp_all only: same_append_eq)
  moreover have "0x3C \<notin> set (label e @ nl 24)" "0x3C \<notin> set (label e' @ nl 24)"
    using assms(3,4) by (simp_all add: nl_def)
  ultimately have "label e @ nl 24 = label e' @ nl 24 \<and>
                   js ''/a>'' @ nl 20 @ r = js ''/a>'' @ nl 20 @ r'"
    by (intro split_at_first)
  then have l: "label e = label e'" and r: "r = r'" by simp_all
  from h i l have "e = e'" by simp
  with r show ?thesis by simp
qed

lemma anchor_nonempty: "anchor e \<noteq> []"
  by (simp add: anchor_def nl_def)

lemma markup_inj:
  assumes "\<forall>g \<in> set gs. clean g" and "\<forall>g \<in> set gs'. clean g"
    and "concat (map (\<lambda>g. anchor (entry_of g)) gs) = concat (map (\<lambda>g. anchor (entry_of g)) gs')"
  shows "map entry_of gs = map entry_of gs'"
  using assms
proof (induction gs arbitrary: gs')
  case Nil
  then show ?case by (cases gs') (simp_all add: anchor_nonempty)
next
  case (Cons g gs)
  show ?case
  proof (cases gs')
    case Nil
    with Cons.prems show ?thesis by (simp add: anchor_nonempty)
  next
    case (Cons g' gs'')
    with Cons.prems have
      eq: "anchor (entry_of g) @ concat (map (\<lambda>g. anchor (entry_of g)) gs) =
           anchor (entry_of g') @ concat (map (\<lambda>g. anchor (entry_of g)) gs'')"
      and c: "clean g" "clean g'" "\<forall>g \<in> set gs. clean g" "\<forall>g \<in> set gs''. clean g"
      by simp_all
    from c(1,2) have "0x22 \<notin> set (href (entry_of g))" "0x22 \<notin> set (href (entry_of g'))"
      "0x3C \<notin> set (label (entry_of g))" "0x3C \<notin> set (label (entry_of g'))"
      by (simp_all add: clean_def entry_of_def)
    from anchor_inj [OF this eq]
    have "entry_of g = entry_of g'"
      and "concat (map (\<lambda>g. anchor (entry_of g)) gs) = concat (map (\<lambda>g. anchor (entry_of g)) gs'')"
      by simp_all
    with Cons.IH [OF c(3,4)] Cons show ?thesis by simp
  qed
qed

text \<open>
  C6, as the specification states it, fails: the fields are put into the markup as
  they are, with nothing escaped, so the panel need not hold one entry per
  suggestion. Here an array of one suggestion, whose name carries the markup that
  closes one anchor and opens another, gives the panel exactly the content that an
  array of two suggestions gives it: whatever entries that content shows, their number
  is wrong for one of the two arrays.
\<close>

theorem one_entry_per_suggestion_counterexample:
  "render (JArr [suggestion_val
       \<lparr>sg_name = js ''Notes'' @ nl 24 @ js ''</a>'' @ nl 20 @
                  nl 24 @ js ''<a href=\"/logout\" class=\"suggestion-item\">'' @
                  nl 28 @ js ''<i class=\"bi bi-file-earmark me-2\"></i>'' @
                  nl 28 @ js ''Physics 101'',
        sg_url = js ''/file/9'', sg_type = js ''file''\<rparr>])
     \<lparr>innerHTML = js '''', display = js ''''\<rparr>
   = render (JArr [suggestion_val
       \<lparr>sg_name = js ''Notes'', sg_url = js ''/file/9'', sg_type = js ''file''\<rparr>,
                   suggestion_val
       \<lparr>sg_name = js ''Physics 101'', sg_url = js ''/logout'', sg_type = js ''file''\<rparr>])
     \<lparr>innerHTML = js '''', display = js ''''\<rparr>"
  by (simp add: string_evals controller_evals)

text \<open>
  C6, amended. Rendering a non-empty suggestion array makes the panel visible and
  sets its markup to one anchor per suggestion, in order: the suggestion's url as the
  text of the \<open>href\<close> attribute, a folder icon when the type is \<open>folder\<close> and a file
  icon otherwise, and the suggestion's name as the text, url and name being inserted
  as they are, not escaped. When no url has a double quote and no name has a \<open><\<close>,
  that markup belongs to these entries alone: another array of such suggestions with
  the same markup has the same entries, one for one. In particular the response
  \<open>[{"name":"Physics 101","url":"/folder/5","type":"folder"}]\<close> yields the one anchor
  labeled \<open>Physics 101\<close> that links to \<open>/folder/5\<close> and has a folder icon.
\<close>

theorem one_anchor_per_suggestion:
  assumes "gs \<noteq> []"
  shows "render (JArr (map suggestion_val gs)) p =
           Inr \<lparr>innerHTML = concat (map (\<lambda>g. anchor (entry_of g)) gs),
                display = js ''block''\<rparr> \<and>
         (i \<in> set (in_flight s) \<longrightarrow>
            container (on_response i (Response st (Some (JArr (map suggestion_val gs)))) s) =
              \<lparr>innerHTML = concat (map (\<lambda>g. anchor (entry_of g)) gs),
               display = js ''block''\<rparr>) \<and>
         ((\<forall>g \<in> set gs. clean g) \<and> (\<forall>g \<in> set gs'. clean g) \<and>
          concat (map (\<lambda>g. anchor (entry_of g)) gs') =
            concat (map (\<lambda>g. anchor (entry_of g)) gs) \<longrightarrow>
            map entry_of gs' = map entry_of gs)"
  using markup_inj [of gs' gs]
  by (simp add: render_suggestions [OF assms] on_response_rendered)

text \<open>The theorem at the response of the specification, the answer to request 0.\<close>

theorem one_anchor_per_suggestion_witness:
  "on_response 0
     (Response 200 (Some (JArr [JObj [(js ''name'', JStr (js ''Physics 101'')),
                                      (js ''url'', JStr (js ''/folder/5'')),
                                      (js ''type'', JStr (js ''folder''))]])))
     \<lparr>container = \<lparr>innerHTML = js '''', display = js ''''\<rparr>, timeout = None,
      fetched = [js ''/api/search/suggest?q=ph''], in_flight = [0], console = []\<rparr>
   = \<lparr>container =
        \<lparr>innerHTML =
           nl 24 @ js ''<a href=\"/folder/5\" class=\"suggestion-item\">'' @
           nl 28 @ js ''<i class=\"bi bi-folder me-2\"></i>'' @
           nl 28 @ js ''Physics 101'' @
           nl 24 @ js ''</a>'' @
           nl 20,
         display = js ''block''\<rparr>,
      timeout = None, fetched = [js ''/api/search/suggest?q=ph''], in_flight = [],
      console = []\<rparr> \<and>
   clean \<lparr>sg_name = js ''Physics 101'', sg_url = js ''/folder/5'', sg_type = js ''folder''\<rparr> \<and>
   map entry_of
     [\<lparr>sg_name = js ''Physics 101'', sg_url = js ''/folder/5'', sg_type = js ''folder''\<rparr>]
   = [\<lparr>href = js ''/folder/5'', entry_icon = FolderIcon, label = js ''Physics 101''\<rparr>]"
  using one_anchor_per_suggestion [of
     "[\<lparr>sg_name = js ''Physics 101'', sg_url = js ''/folder/5'', sg_type = js ''folder''\<rparr>]"
     "\<lparr>innerHTML = js '''', display = js ''''\<rparr>" 0
     "\<lparr>container = \<lparr>innerHTML = js '''', display = js ''''\<rparr>, timeout = None,
      fetched = [js ''/api/search/suggest?q=ph''], in_flight = [0], console = []\<rparr>" 200
     "[\<lparr>sg_name = js ''Physics 101'', sg_url = js ''/folder/5'', sg_type = js ''folder''\<rparr>]"]
  by (simp add: suggestion_val_def entry_of_def anchor_def icon_class_def clean_def js_def
        on_response_def)

section \<open>Properties of the alerts\<close>

lemma earliest_None: "earliest xs = None \<longleftrightarrow> xs = []"
  by (cases xs) (auto split: option.splits)

lemma earliest_least: "earliest xs = Some x \<Longrightarrow> y \<in> set xs \<Longrightarrow> fst x \<le> fst y"
  by (induction xs arbitrary: x) (auto simp: earliest_None split: option.splits if_splits)

lemma in_set_remove1D: "y \<in> set (remove1 x xs) \<Longrightarrow> y \<in> set xs"
  using set_remove1_subset [of x xs] by blast

lemma outcome_simps:
  "outcome f r (fade el) = outcome True r el"
  "outcome f r (detach el) = outcome f True el"
  "outcome False False el = el"
  by (simp_all add: outcome_def fade_def detach_def)

lemma set_remove1_other: "y \<noteq> x \<Longrightarrow> y \<in> set (remove1 x xs) \<longleftrightarrow> y \<in> set xs"
  by (induction xs) auto

lemma run_until_elements:
  "length (elements (run_until T p)) = length (elements p) \<and>
   (\<forall>i < length (elements p).
      elements (run_until T p) ! i = outcome (fade_due p T i) (remove_due p T i) (elements p ! i))"
proof (induction T p rule: run_until.induct)
  case (1 T p)
  show ?case
  proof (cases "earliest (timers p)")
    case None
    then have "timers p = []" by (simp add: earliest_None)
    then show ?thesis
      by (simp add: run_until.simps [of T p] fade_due_def remove_due_def outcome_simps)
  next
    case (Some x)
    show ?thesis
    proof (cases "fst x \<le> T")
      case False
      have "\<And>y. y \<in> set (timers p) \<Longrightarrow> T < fst y"
        using earliest_least [OF Some] False by fastforce
      then have "\<And>i. \<not> fade_due p T i" "\<And>i. \<not> remove_due p T i"
        by (fastforce simp: fade_due_def remove_due_def)+
      with Some False show ?thesis
        by (simp add: run_until.simps [of T p] outcome_simps)
    next
      case True
      let ?q = "exec (fst x) (snd x) (p\<lparr>timers := remove1 x (timers p)\<rparr>)"
      have run: "run_until T p = run_until T ?q"
        using Some True by (simp add: run_until.simps [of T p])
      have xin: "x \<in> set (timers p)" using Some by (rule earliest_in_set)
      note IH = "1.IH" [OF Some True]
      obtain d k where x: "x = (d, k)" by (cases x)
      show ?thesis
      proof (cases k)
        case (Fade j)
        have len: "length (elements ?q) = length (elements p)" by (simp add: x Fade)
        have tq: "set (timers ?q) = set (remove1 x (timers p)) \<union> {(d + 500, Remove j)}"
          by (auto simp: x Fade)
        have fd: "fade_due ?q T i = fade_due p T i" if "i \<noteq> j" for i
          using that by (auto simp: fade_due_def tq x Fade set_remove1_other)
        have rd: "remove_due ?q T i = remove_due p T i" if "i \<noteq> j" for i
          using that by (auto simp: remove_due_def tq x Fade set_remove1_other)
        have fj: "fade_due p T j" using xin True by (auto simp: fade_due_def x Fade)
        have rj: "remove_due ?q T j = remove_due p T j"
        proof
          assume "remove_due ?q T j"
          then show "remove_due p T j"
            using xin by (auto simp: remove_due_def tq x Fade dest: in_set_remove1D)
        next
          assume "remove_due p T j"
          then consider d' where "(d', Remove j) \<in> set (timers p)" "d' \<le> T"
            | d' where "(d', Fade j) \<in> set (timers p)" "d' + 500 \<le> T"
            by (auto simp: remove_due_def)
          then show "remove_due ?q T j"
          proof cases
            case 1
            then have "(d', Remove j) \<in> set (remove1 x (timers p))"
              by (simp add: set_remove1_other x Fade)
            with 1 show ?thesis by (auto simp: remove_due_def tq)
          next
            case 2
            show ?thesis
            proof (cases "d' = d")
              case True
              with 2 show ?thesis by (auto simp: remove_due_def tq)
            next
              case False
              with 2 have "(d', Fade j) \<in> set (remove1 x (timers p))"
                by (simp add: set_remove1_other x Fade)
              with 2 show ?thesis by (auto simp: remove_due_def tq)
            qed
          qed
        qed
        have el: "elements ?q = (elements p)[j := fade (elements p ! j)]"
          by (simp add: x Fade)
        show ?thesis
        proof (intro conjI allI impI)
          show "length (elements (run_until T p)) = length (elements p)"
            using IH len run by simp
        next
          fix i assume i: "i < length (elements p)"
          with IH len have
            "elements (run_until T ?q) ! i =
               outcome (fade_due ?q T i) (remove_due ?q T i) (elements ?q ! i)"
            by simp
          then show "elements (run_until T p) ! i =
               outcome (fade_due p T i) (remove_due p T i) (elements p ! i)"
            using i fj by (cases "i = j") (simp_all add: run el fd rd rj outcome_simps)
        qed
      next
        case (Remove j)
        have len: "length (elements ?q) = length (elements p)" by (simp add: x Remove)
        have tq: "timers ?q = remove1 x (timers p)"
          by (simp add: x Remove)
        have fd: "fade_due ?q T i = fade_due p T i" for i
          by (auto simp: fade_due_def tq x Remove set_remove1_other)
        have rd: "remove_due ?q T i = remove_due p T i" if "i \<noteq> j" for i
          using that by (auto simp: remove_due_def tq x Remove set_remove1_other)
        have rj: "remove_due p T j" using xin True by (auto simp: remove_due_def x Remove)
        have el: "elements ?q = (elements p)[j := detach (elements p ! j)]"
          by (simp add: x Remove)
        show ?thesis
        proof (intro conjI allI impI)
          show "length (elements (run_until T p)) = length (elements p)"
            using IH len run by simp
        next
          fix i assume i: "i < length (elements p)"
          with IH len have
            "elements (run_until T ?q) ! i =
               outcome (fade_due ?q T i) (remove_due ?q T i) (elements ?q ! i)"
            by simp
          then show "elements (run_until T p) ! i =
               outcome (fade_due p T i) (remove_due p T i) (elements p ! i)"
            using i rj by (cases "i = j") (simp_all add: run el fd rd outcome_simps)
        qed
      qed
    qed
  qed
qed

lemma set_schedule_alerts:
  "(d, k) \<in> set (schedule_alerts now n els) \<longleftrightarrow>
   d = now + 5000 \<and> (\<exists>i < length els. k = Fade (n + i) \<and> auto_hide (els ! i))"
proof (induction els arbitrary: n)
  case Nil
  then show ?case by simp
next
  case (Cons el els)
  have ex: "(\<exists>i < length (el # els). P i) \<longleftrightarrow> P 0 \<or> (\<exists>i < length els. P (Suc i))" for P
    by (auto simp: less_Suc_eq_0_disj)
  show ?case
    by (subst ex) (auto simp: Cons.IH)
qed

lemma init_fade_due:
  assumes "timers p = []" and "i < length (elements p)"
  shows "fade_due (initAutoHideAlerts now p) T i \<longleftrightarrow>
         auto_hide (elements p ! i) \<and> now + 5000 \<le> T"
  using assms by (auto simp: fade_due_def initAutoHideAlerts_def set_schedule_alerts)

lemma init_remove_due:
  assumes "timers p = []" and "i < length (elements p)"
  shows "remove_due (initAutoHideAlerts now p) T i \<longleftrightarrow>
         auto_hide (elements p ! i) \<and> now + 5500 \<le> T"
  using assms by (auto simp: remove_due_def initAutoHideAlerts_def set_schedule_alerts)

lemma init_run_until:
  assumes "timers p = []" and "i < length (elements p)"
  shows "elements (run_until T (initAutoHideAlerts now p)) ! i =
         (if auto_hide (elements p ! i)
          then (if T < now + 5000 then elements p ! i
                else if T < now + 5500 then fade (elements p ! i)
                else detach (fade (elements p ! i)))
          else elements p ! i)"
proof -
  have e: "elements (initAutoHideAlerts now p) = elements p"
    by (simp add: initAutoHideAlerts_def)
  from run_until_elements [of T "initAutoHideAlerts now p"] assms(2)
  have "elements (run_until T (initAutoHideAlerts now p)) ! i =
        outcome (fade_due (initAutoHideAlerts now p) T i)
                (remove_due (initAutoHideAlerts now p) T i) (elements p ! i)"
    by (simp add: e)
  then show ?thesis
    by (auto simp: init_fade_due [OF assms] init_remove_due [OF assms] outcome_def not_less)
qed

lemma init_run_until_length:
  "length (elements (run_until T (initAutoHideAlerts now p))) = length (elements p)"
  using run_until_elements [of T "initAutoHideAlerts now p"]
  by (simp add: initAutoHideAlerts_def)

text \<open>Removing the elements picked by \<open>R\<close> disconnects what has one of them in its lineage.\<close>

lemma connected_after_removals:
  assumes "length els' = length els"
    and "\<And>k. k < length els \<Longrightarrow>
           parent (els' ! k) = (if R k then Detached else parent (els ! k))"
  shows "in_document els' i \<longleftrightarrow> in_document els i \<and> (\<forall>k \<in> set (lineage els i). \<not> R k)"
proof (induction i rule: less_induct)
  case (less i)
  show ?case
  proof (cases "length els \<le> i")
    case True
    then show ?thesis
      using assms(1) by (simp add: in_document.simps [of _ i] lineage.simps [of _ i])
  next
    case False
    then have i: "i < length els" by simp
    show ?thesis
    proof (cases "R i")
      case True
      then show ?thesis
        using i assms(1) assms(2) [OF i]
        by (simp add: in_document.simps [of els' i] lineage.simps [of els i])
    next
      case nR: False
      show ?thesis
      proof (cases "parent (els ! i)")
        case InDocument
        then show ?thesis
          using i nR assms(1) assms(2) [OF i]
          by (simp add: in_document.simps [of _ i] lineage.simps [of els i])
      next
        case Detached
        then show ?thesis
          using i nR assms(1) assms(2) [OF i]
          by (simp add: in_document.simps [of _ i] lineage.simps [of els i])
      next
        case (Inside j)
        show ?thesis
        proof (cases "j < i")
          case True
          from less.IH [OF True] show ?thesis
            using i nR True Inside assms(1) assms(2) [OF i]
            by (auto simp: in_document.simps [of _ i] lineage.simps [of els i])
        next
          case False
          then show ?thesis
            using i nR Inside assms(1) assms(2) [OF i]
            by (simp add: in_document.simps [of _ i] lineage.simps [of els i])
        qed
      qed
    qed
  qed
qed

lemma init_run_until_parent:
  assumes "timers p = []" and "k < length (elements p)"
  shows "parent (elements (run_until T (initAutoHideAlerts now p)) ! k) =
         (if auto_hide (elements p ! k) \<and> now + 5500 \<le> T then Detached
          else parent (elements p ! k))"
  by (simp add: init_run_until [OF assms] fade_def detach_def)

lemma init_run_until_connected:
  assumes "timers p = []"
  shows "in_document (elements (run_until T (initAutoHideAlerts now p))) i \<longleftrightarrow>
         in_document (elements p) i \<and>
         (\<forall>k \<in> set (lineage (elements p) i). \<not> (auto_hide (elements p ! k) \<and> now + 5500 \<le> T))"
  by (rule connected_after_removals [OF init_run_until_length])
     (simp add: init_run_until_parent [OF assms])

lemma self_in_lineage: "i < length els \<Longrightarrow> i \<in> set (lineage els i)"
  by (simp add: lineage.simps [of els i])

lemmas alert_evals =
  initAutoHideAlerts_def auto_hide_def fade_def detach_def run_until.simps
  in_document.simps lineage.simps js_def

text \<open>
  C9, as stated, fails for an alert that lies inside another one: \<open>remove()\<close> takes an
  element out of the document with all that is in it. Here an alert with
  \<open>alert-permanent\<close> lies inside an ordinary alert; 5500 ms after the call it is out
  of the document.
\<close>

theorem permanent_alert_removed_counterexample:
  "in_document
     [\<lparr>classes = [js ''alert'', js ''alert-danger''], transition = js '''', opacity = js '''',
       parent = InDocument\<rparr>,
      \<lparr>classes = [js ''alert'', js ''alert-permanent''], transition = js '''', opacity = js '''',
       parent = Inside 0\<rparr>] 1 \<and>
   \<not> in_document (elements (run_until 5500 (initAutoHideAlerts 0
     \<lparr>elements =
        [\<lparr>classes = [js ''alert'', js ''alert-danger''], transition = js '''', opacity = js '''',
          parent = InDocument\<rparr>,
         \<lparr>classes = [js ''alert'', js ''alert-permanent''], transition = js '''', opacity = js '''',
          parent = Inside 0\<rparr>],
      timers = []\<rparr>))) 1"
  by (simp add: alert_evals)

text \<open>
  C9, amended. An alert that carries the class \<open>alert-permanent\<close> gets no timer and is
  itself never changed; it stays in the document unless it lies inside an alert
  without \<open>alert-permanent\<close>, with which it leaves the document 5500 ms after the
  call. Every other alert is faded (opacity 0 with a transition of 0.5 s) once 5000 ms
  have passed and removed once 500 ms more have passed, and is untouched and in the
  document as before until then. Timers fire at the time they are due at.
\<close>

theorem alerts_hide_unless_permanent:
  assumes "timers p = []" and "i < length (elements p)"
    and "js ''alert'' \<in> set (classes (elements p ! i))"
  shows "(js ''alert-permanent'' \<in> set (classes (elements p ! i)) \<longrightarrow>
            (\<forall>d. (d, Fade i) \<notin> set (timers (initAutoHideAlerts now p)) \<and>
                 (d, Remove i) \<notin> set (timers (initAutoHideAlerts now p))) \<and>
            elements (run_until T (initAutoHideAlerts now p)) ! i = elements p ! i \<and>
            (in_document (elements (run_until T (initAutoHideAlerts now p))) i \<longleftrightarrow>
               in_document (elements p) i \<and>
               (T < now + 5500 \<or>
                (\<forall>k \<in> set (lineage (elements p) i). \<not> auto_hide (elements p ! k))))) \<and>
         (js ''alert-permanent'' \<notin> set (classes (elements p ! i)) \<longrightarrow>
            (now + 5000, Fade i) \<in> set (timers (initAutoHideAlerts now p)) \<and>
            elements (run_until T (initAutoHideAlerts now p)) ! i =
              (if T < now + 5000 then elements p ! i
               else if T < now + 5500 then fade (elements p ! i)
               else detach (fade (elements p ! i))) \<and>
            (in_document (elements (run_until T (initAutoHideAlerts now p))) i \<longleftrightarrow>
               in_document (elements p) i \<and> T < now + 5500))"
proof -
  have t: "(d, k) \<in> set (timers (initAutoHideAlerts now p)) \<longleftrightarrow>
           (d, k) \<in> set (schedule_alerts now 0 (elements p))" for d k
    using assms(1) by (simp add: initAutoHideAlerts_def)
  have perm: "(d, Fade i) \<notin> set (timers (initAutoHideAlerts now p)) \<and>
              (d, Remove i) \<notin> set (timers (initAutoHideAlerts now p))"
    if "js ''alert-permanent'' \<in> set (classes (elements p ! i))" for d
    using that by (auto simp: t set_schedule_alerts auto_hide_def)
  have other: "(now + 5000, Fade i) \<in> set (timers (initAutoHideAlerts now p))"
    if "js ''alert-permanent'' \<notin> set (classes (elements p ! i))"
    using that assms(2,3) by (auto simp: t set_schedule_alerts auto_hide_def)
  have ah: "auto_hide (elements p ! i) \<longleftrightarrow>
            js ''alert-permanent'' \<notin> set (classes (elements p ! i))"
    using assms(3) by (simp add: auto_hide_def)
  have cp: "in_document (elements (run_until T (initAutoHideAlerts now p))) i \<longleftrightarrow>
            in_document (elements p) i \<and>
            (T < now + 5500 \<or>
             (\<forall>k \<in> set (lineage (elements p) i). \<not> auto_hide (elements p ! k)))"
    by (auto simp: init_run_until_connected [OF assms(1)] not_le)
  have co: "in_document (elements (run_until T (initAutoHideAlerts now p))) i \<longleftrightarrow>
            in_document (elements p) i \<and> T < now + 5500"
    if "js ''alert-permanent'' \<notin> set (classes (elements p ! i))"
    using that self_in_lineage [OF assms(2)] ah unfolding cp by auto
  show ?thesis
    using perm other co cp by (simp add: init_run_until [OF assms(1,2)] ah)
qed

text \<open>
  The theorem on a page with an ordinary alert, a permanent alert inside it, a
  permanent alert of its own and a navigation bar, 5499 and 5500 ms after the call.
\<close>

theorem alerts_hide_unless_permanent_witness:
  "elements (run_until 5499 (initAutoHideAlerts 0
     \<lparr>elements =
        [\<lparr>classes = [js ''alert'', js ''alert-danger''], transition = js '''',
          opacity = js '''', parent = InDocument\<rparr>,
         \<lparr>classes = [js ''alert'', js ''alert-permanent''], transition = js '''',
          opacity = js '''', parent = Inside 0\<rparr>,
         \<lparr>classes = [js ''alert'', js ''alert-permanent''], transition = js '''',
          opacity = js '''', parent = InDocument\<rparr>,
         \<lparr>classes = [js ''navbar''], transition = js '''', opacity = js '''',
          parent = InDocument\<rparr>],
      timers = []\<rparr>)) ! 0
   = \<lparr>classes = [js ''alert'', js ''alert-danger''], transition = js ''opacity 0.5s'',
      opacity = js ''0'', parent = InDocument\<rparr> \<and>
   elements (run_until 5500 (initAutoHideAlerts 0
     \<lparr>elements =
        [\<lparr>classes = [js ''alert'', js ''alert-danger''], transition = js '''',
          opacity = js '''', parent = InDocument\<rparr>,
         \<lparr>classes = [js ''alert'', js ''alert-permanent''], transition = js '''',
          opacity = js '''', parent = Inside 0\<rparr>,
         \<lparr>classes = [js ''alert'', js ''alert-permanent''], transition = js '''',
          opacity = js '''', parent = InDocument\<rparr>,
         \<lparr>classes = [js ''navbar''], transition = js '''', opacity = js '''',
          parent = InDocument\<rparr>],
      timers = []\<rparr>)) ! 0
   = \<lparr>classes = [js ''alert'', js ''alert-danger''], transition = js ''opacity 0.5s'',
      opacity = js ''0'', parent = Detached\<rparr> \<and>
   \<not> in_document (elements (run_until 5500 (initAutoHideAlerts 0
     \<lparr>elements =
        [\<lparr>classes = [js ''alert'', js ''alert-danger''], transition = js '''',
          opacity = js '''', parent = InDocument\<rparr>,
         \<lparr>classes = [js ''alert'', js ''alert-permanent''], transition = js '''',
          opacity = js '''', parent = Inside 0\<rparr>,
         \<lparr>classes = [js ''alert'', js ''alert-permanent''], transition = js '''',
          opacity = js '''', parent = InDocument\<rparr>,
         \<lparr>classes = [js ''navbar''], transition = js '''', opacity = js '''',
          parent = InDocument\<rparr>],
      timers = []\<rparr>))) 1 \<and>
   in_document (elements (run_until 5500 (initAutoHideAlerts 0
     \<lparr>elements =
        [\<lparr>classes = [js ''alert'', js ''alert-danger''], transition = js '''',
          opacity = js '''', parent = InDocument\<rparr>,
         \<lparr>classes = [js ''alert'', js ''alert-permanent''], transition = js '''',
          opacity = js '''', parent = Inside 0\<rparr>,
         \<lparr>classes = [js ''alert'', js ''alert-permanent''], transition = js '''',
          opacity = js '''', parent = InDocument\<rparr>,
         \<lparr>classes = [js ''navbar''], transition = js '''', opacity = js '''',
          parent = InDocument\<rparr>],
      timers = []\<rparr>))) 2 \<and>
   elements (run_until 5500 (initAutoHideAlerts 0
     \<lparr>elements =
        [\<lparr>classes = [js ''alert'', js ''alert-danger''], transition = js '''',
          opacity = js '''', parent = InDocument\<rparr>,
         \<lparr>classes = [js ''alert'', js ''alert-permanent''], transition = js '''',
          opacity = js '''', parent = Inside 0\<rparr>,
         \<lparr>classes = [js ''alert'', js ''alert-permanent''], transition = js '''',
          opacity = js '''', parent = InDocument\<rparr>,
         \<lparr>classes = [js ''navbar''], transition = js '''', opacity = js '''',
          parent = InDocument\<rparr>],
      timers = []\<rparr>)) ! 2
   = \<lparr>classes = [js ''alert'', js ''alert-permanent''], transition = js '''',
      opacity = js '''', parent = InDocument\<rparr>"
proof -
  let ?els =
    "[\<lparr>classes = [js ''alert'', js ''alert-danger''], transition = js '''',
       opacity = js '''', parent = InDocument\<rparr>,
      \<lparr>classes = [js ''alert'', js ''alert-permanent''], transition = js '''',
       opacity = js '''', parent = Inside 0\<rparr>,
      \<lparr>classes = [js ''alert'', js ''alert-permanent''], transition = js '''',
       opacity = js '''', parent = InDocument\<rparr>,
      \<lparr>classes = [js ''navbar''], transition = js '''', opacity = js '''',
       parent = InDocument\<rparr>]"
  let ?p = "\<lparr>elements = ?els, timers = []\<rparr>"
  have c: "in_document ?els 1" "in_document ?els 2"
    by (simp_all add: in_document.simps)
  have l: "lineage ?els 1 = [1, 0]" "lineage ?els 2 = [2]"
    by (simp_all add: lineage.simps)
  show ?thesis
    using alerts_hide_unless_permanent [of ?p 0 0 5499]
      alerts_hide_unless_permanent [of ?p 0 0 5500]
      alerts_hide_unless_permanent [of ?p 1 0 5500]
      alerts_hide_unless_permanent [of ?p 2 0 5500]
      c [simplified js_def] l [simplified js_def]
    by (simp add: js_def fade_def detach_def auto_hide_def)
qed

section \<open>Properties of file size validation\<close>

lemma validateFileSize_loop_result:
  "fst (validateFileSize_loop m maxSize fs input) = (\<forall>f \<in> set fs. of_nat (file_size f) \<le> maxSize)"
  by (induction fs) auto

lemma validateFileSize_loop_within:
  "\<forall>f \<in> set fs. of_nat (file_size f) \<le> maxSize \<Longrightarrow>
   validateFileSize_loop m maxSize fs input = (True, input, [])"
  by (induction fs) auto

lemma validateFileSize_loop_exceeds:
  "\<exists>f \<in> set fs. of_nat (file_size f) > maxSize \<Longrightarrow>
   fst (validateFileSize_loop m maxSize fs input) = False \<and>
   input_value (fst (snd (validateFileSize_loop m maxSize fs input))) = [] \<and>
   files (fst (snd (validateFileSize_loop m maxSize fs input))) = files input"
  by (induction fs) (auto simp: js_def)

text \<open>
  C10. \<open>validateFileSize(input, maxSizeMB)\<close> returns true exactly when every file of
  \<open>input.files\<close> has a size of at most \<open>maxSizeMB * 1024 * 1024\<close> bytes. When some file
  is larger, \<open>input.value\<close> is set to the empty string and the result is false; when all
  files are within the limit the input (and so \<open>input.value\<close>) is left as it was.
\<close>

theorem validateFileSize_iff_all_within:
  "fst (validateFileSize input maxSizeMB) =
     (\<forall>f \<in> set (files input). of_nat (file_size f) \<le> maxSizeMB * 1024 * 1024) \<and>
   ((\<exists>f \<in> set (files input). of_nat (file_size f) > maxSizeMB * 1024 * 1024) \<longrightarrow>
      fst (validateFileSize input maxSizeMB) = False \<and>
      input_value (fst (snd (validateFileSize input maxSizeMB))) = js '''') \<and>
   ((\<forall>f \<in> set (files input). of_nat (file_size f) \<le> maxSizeMB * 1024 * 1024) \<longrightarrow>
      fst (snd (validateFileSize input maxSizeMB)) = input)"
proof (intro conjI impI)
  show "fst (validateFileSize input maxSizeMB) =
     (\<forall>f \<in> set (files input). of_nat (file_size f) \<le> maxSizeMB * 1024 * 1024)"
    unfolding validateFileSize_def Let_def by (rule validateFileSize_loop_result)
next
  assume ex: "\<exists>f \<in> set (files input). of_nat (file_size f) > maxSizeMB * 1024 * 1024"
  from validateFileSize_loop_exceeds [OF ex, of maxSizeMB input]
  show "fst (validateFileSize input maxSizeMB) = False"
    and "input_value (fst (snd (validateFileSize input maxSizeMB))) = js ''''"
    by (simp_all add: validateFileSize_def js_def)
next
  assume "\<forall>f \<in> set (files input). of_nat (file_size f) \<le> maxSizeMB * 1024 * 1024"
  then show "fst (snd (validateFileSize input maxSizeMB)) = input"
    unfolding validateFileSize_def Let_def by (simp add: validateFileSize_loop_within)
qed

text \<open>
  The theorem at two inputs with a limit of 1 MB: a 2 MiB file after a small one is
  refused and the value cleared; two files within the limit are accepted.
\<close>

theorem validateFileSize_iff_all_within_witness:
  "validateFileSize
     \<lparr>files = [\<lparr>file_name = js ''a.txt'', file_size = 10\<rparr>,
               \<lparr>file_name = js ''b.pdf'', file_size = 2097152\<rparr>],
      input_value = js ''C:/fakepath/a.txt''\<rparr> 1
   = (False,
      \<lparr>files = [\<lparr>file_name = js ''a.txt'', file_size = 10\<rparr>,
                \<lparr>file_name = js ''b.pdf'', file_size = 2097152\<rparr>],
       input_value = js ''''\<rparr>,
      [TooLarge (js ''b.pdf'') 1]) \<and>
   fst (snd (validateFileSize
     \<lparr>files = [\<lparr>file_name = js ''a.txt'', file_size = 10\<rparr>,
               \<lparr>file_name = js ''c.png'', file_size = 1048576\<rparr>],
      input_value = js ''C:/fakepath/a.txt''\<rparr> 1))
   = \<lparr>files = [\<lparr>file_name = js ''a.txt'', file_size = 10\<rparr>,
               \<lparr>file_name = js ''c.png'', file_size = 1048576\<rparr>],
      input_value = js ''C:/fakepath/a.txt''\<rparr>"
  using
    validateFileSize_iff_all_within
      [of "\<lparr>files = [\<lparr>file_name = js ''a.txt'', file_size = 10\<rparr>,
                 \<lparr>file_name = js ''b.pdf'', file_size = 2097152\<rparr>],
        input_value = js ''C:/fakepath/a.txt''\<rparr>" 1]
    validateFileSize_iff_all_within
      [of "\<lparr>files = [\<lparr>file_name = js ''a.txt'', file_size = 10\<rparr>,
                 \<lparr>file_name = js ''c.png'', file_size = 1048576\<rparr>],
        input_value = js ''C:/fakepath/a.txt''\<rparr>" 1]
  by (simp add: validateFileSize_def)

end
